theory Spec2Isabelle
  imports Complex_Main "HOL-Library.AList" "HOL-Library.Word"
begin

section \<open>Strings\<close>

text \<open>
  A Python \<open>str\<close> is modelled as a \<open>string\<close> of ASCII characters. \<open>str.strip\<close> removes the
  characters for which \<open>str.isspace\<close> holds (in the ASCII range: 0x09 to 0x0D, 0x1C to 0x1F
  and the blank); \<open>str.lower\<close> maps the letters A to Z to a to z and leaves every other
  character alone.
\<close>

definition isspace :: "char \<Rightarrow> bool" where
  "isspace c \<longleftrightarrow>
     c \<in> set [CHR 0x09, CHR 0x0A, CHR 0x0B, CHR 0x0C, CHR 0x0D,
              CHR 0x1C, CHR 0x1D, CHR 0x1E, CHR 0x1F, CHR '' '']"

definition strip :: "string \<Rightarrow> string" where
  "strip s = rev (dropWhile isspace (rev (dropWhile isspace s)))"

definition lower_char :: "char \<Rightarrow> char" where
  "lower_char c =
     (case map_of (zip ''ABCDEFGHIJKLMNOPQRSTUVWXYZ'' ''abcdefghijklmnopqrstuvwxyz'') c of
        Some d \<Rightarrow> d
      | None \<Rightarrow> c)"

definition lower :: "string \<Rightarrow> string" where
  "lower s = map lower_char s"

definition startswith :: "string \<Rightarrow> string \<Rightarrow> bool" where
  "startswith s p \<longleftrightarrow> take (length p) s = p"

text \<open>
  \<open>Series.str.contains(pat)\<close> searches each cell for the pattern; for a pattern of plain
  letters that is a substring search at every position.
\<close>

fun str_contains :: "string \<Rightarrow> string \<Rightarrow> bool" where
  "str_contains [] p \<longleftrightarrow> p = []"
| "str_contains (c # cs) p \<longleftrightarrow> startswith (c # cs) p \<or> str_contains cs p"




section \<open>Numbers\<close>

text \<open>
  A numeric column of a data frame is either \<open>int64\<close> or \<open>float64\<close>, the same for all its
  cells. An \<open>int64\<close> is a 64-bit word read as a signed number: sums and differences wrap
  around. A \<open>float64\<close> is modelled by a real number: rounding, infinities and NaN are outside
  the model, and so is the rounding of an \<open>int64\<close> that is converted to \<open>float64\<close>.
\<close>

datatype num = Int64 "64 word" | Float64 real

fun to_float :: "num \<Rightarrow> real" where
  "to_float (Int64 w) = real_of_int (sint w)"
| "to_float (Float64 r) = r"

fun is_int64 :: "num \<Rightarrow> bool" where
  "is_int64 (Int64 w) \<longleftrightarrow> True"
| "is_int64 (Float64 r) \<longleftrightarrow> False"


text \<open>
  The cells of one column: a column in which every number is an \<open>int64\<close> stays so, any other
  column is \<open>float64\<close> throughout.
\<close>

definition unify :: "num list \<Rightarrow> num list" where
  "unify xs = (if list_all is_int64 xs then xs else map (\<lambda>x. Float64 (to_float x)) xs)"


fun num_sub :: "num \<Rightarrow> num \<Rightarrow> num" where
  "num_sub (Int64 a) (Int64 b) = Int64 (a - b)"
| "num_sub x y = Float64 (to_float x - to_float y)"

fun num_abs :: "num \<Rightarrow> num" where
  "num_abs (Int64 a) = Int64 (if sint a < 0 then - a else a)"
| "num_abs (Float64 r) = Float64 \<bar>r\<bar>"

section \<open>The data frames\<close>

text \<open>
  A data frame is the list of its rows, in index order. The frame read from the CSV file has
  the columns \<open>Time\<close>, \<open>Sex\<close> and \<open>Value\<close>; \<open>load_dataset\<close> adds the column \<open>Year\<close> and makes
  \<open>Value\<close> numeric. \<open>Time\<close> holds the text that \<open>astype(str)\<close> gives for the cell. A datetime
  parsed with the format \<open>%Y\<close> is the first of January of its year and is modelled by that
  year.
\<close>

record 'v csv_row =
  Time :: string
  Sex :: string
  Value :: 'v

record row = "num csv_row" +
  Year :: int

text \<open>The frame returned by \<open>aggregate_by_year\<close>; \<open>Year_dt\<close> is its datetime column \<open>Year\<close>.\<close>

record yearly =
  Year_dt :: int
  YearInt :: int
  ValueAgg :: num

datatype error = TypeError | ValueError | LinAlgError

section \<open>Loading\<close>

text \<open>
  \<open>pd.to_datetime(..., format='%Y')\<close> and \<open>pd.to_numeric\<close> are pandas' readers of a year and
  of a number. Which texts they accept is decided by the library and is not the same in all
  its versions, so both are parameters of the model: \<open>parse_year\<close> gives the year of the
  datetime read from a text, \<open>read_number\<close> the number read from a cell, and \<open>None\<close> where
  the library finds none (with \<open>errors='coerce'\<close> that is NaT or NaN; with the default
  \<open>errors='raise'\<close> the call raises \<open>ValueError\<close>). \<open>to_numeric\<close> returns one column: \<open>int64\<close>
  when every cell is read as an integer, \<open>float64\<close> otherwise, the unread cells being NaN.
\<close>

definition to_numeric :: "('c \<Rightarrow> num option) \<Rightarrow> 'c list \<Rightarrow> num option list" where
  "to_numeric read_number cells =
     (let col = map read_number cells in
      if list_all (\<lambda>c. case c of Some v \<Rightarrow> is_int64 v | None \<Rightarrow> False) col then col
      else map (map_option (\<lambda>v. Float64 (to_float v))) col)"

text \<open>
  \<open>load_dataset\<close> sets the two columns and \<open>dropna\<close> keeps the rows in which both cells are
  present.
\<close>

definition load_dataset ::
  "(string \<Rightarrow> int option) \<Rightarrow> ('c \<Rightarrow> num option) \<Rightarrow> 'c csv_row list \<Rightarrow> row list" where
  "load_dataset parse_year read_number df =
     (let year_col = map (\<lambda>r. parse_year (Time r)) df;
          value_col = to_numeric read_number (map Value df)
      in List.map_filter
           (\<lambda>(r, y, v). case (y, v) of
                (Some y, Some v) \<Rightarrow> Some \<lparr>Time = Time r, Sex = Sex r, Value = v, Year = y\<rparr>
              | _ \<Rightarrow> None)
           (zip df (zip year_col value_col)))"

section \<open>Filters\<close>

definition filter_gender :: "row list \<Rightarrow> string \<Rightarrow> row list" where
  "filter_gender df gender0 =
     (let gender = lower (strip gender0) in
      if gender \<in> set [''all'', ''''] then df
      else if startswith gender ''males'' \<or> startswith gender ''male'' \<or> gender = ''m'' then
        (let mask = (\<lambda>r. str_contains (lower (Sex r)) ''males'');
             mask = (if gender = ''male'' \<or> gender = ''m''
                     then (\<lambda>r. lower (Sex r) = ''males'') else mask)
         in filter mask df)
      else if startswith gender ''female'' \<or> startswith gender ''fem'' then
        filter (\<lambda>r. lower (Sex r) = ''females'') df
      else filter (\<lambda>r. lower (Sex r) = gender) df)"

definition filter_year_range :: "row list \<Rightarrow> int \<Rightarrow> int \<Rightarrow> row list" where
  "filter_year_range df start_year end_year =
     filter (\<lambda>r. Year r \<ge> start_year \<and> Year r \<le> end_year) df"

section \<open>Aggregation\<close>




section \<open>Statistics\<close>

text \<open>
  A result of \<open>calculate_statistics\<close> is a Python dictionary in insertion order: a list of
  pairs of a key and a value, written with \<open>AList.update\<close>, which replaces the value of a
  key that is present and appends a new key at the end. A value is a number, NaN, \<open>None\<close>
  or a string.
\<close>

datatype stat_value = Val num | NaN | PyNone | Str string

definition mean :: "real list \<Rightarrow> real" where
  "mean xs = sum_list xs / real (length xs)"

text \<open>\<open>Series.max\<close> and \<open>Series.min\<close> return a cell of the column.\<close>

definition num_max :: "num \<Rightarrow> num \<Rightarrow> num" where
  "num_max a b = (if to_float a < to_float b then b else a)"

definition num_min :: "num \<Rightarrow> num \<Rightarrow> num" where
  "num_min a b = (if to_float b < to_float a then b else a)"

definition series_max :: "num list \<Rightarrow> num" where
  "series_max xs = fold (\<lambda>x m. num_max m x) (tl xs) (hd xs)"

definition series_min :: "num list \<Rightarrow> num" where
  "series_min xs = fold (\<lambda>x m. num_min m x) (tl xs) (hd xs)"

definition median :: "real list \<Rightarrow> real" where
  "median xs =
     (let s = sort xs; n = length xs in
      if odd n then s ! (n div 2) else (s ! (n div 2 - 1) + s ! (n div 2)) / 2)"

text \<open>\<open>Series.std(ddof=1)\<close>: NaN for fewer than two values.\<close>

definition std :: "real list \<Rightarrow> stat_value" where
  "std xs =
     (let n = length xs; m = mean xs in
      if n < 2 then NaN
      else Val (Float64 (sqrt (sum_list (map (\<lambda>x. (x - m) * (x - m)) xs) / real (n - 1)))))"

text \<open>
  \<open>np.polyfit(x, y, 1)\<close> turns both vectors into \<open>float64\<close> and solves the least-squares
  problem for the matrix with the columns \<open>x\<close> and \<open>1\<close>, each scaled to norm 1, by a singular
  value decomposition; it returns slope and intercept. It raises \<open>TypeError\<close> for an empty
  \<open>x\<close> and for vectors of different lengths. The model is the same problem in exact
  arithmetic: for a matrix of full rank the solution of the normal equations, written out
  below. The numbers the library returns differ from it by the rounding of its
  floating-point solver (on the years 2000, 2001, 2002 and the totals 5, 7, 9 it returns
  1.999999999999709 and -3994.999999999416, the model 2 and -3995), so the model says
  whether the call returns, and nothing exact about the two numbers. When all abscissae are
  the same number the matrix has rank 1, and the solver returns the solution of least norm in
  the scaled coordinates (with a warning); when that number is 0 the scaling divides 0 by 0
  and the solver fails on the NaN column.
\<close>

definition polyfit1 :: "int list \<Rightarrow> real list \<Rightarrow> error + (real \<times> real)" where
  "polyfit1 xi ys =
     (let x = map real_of_int xi;
          n = real (length x);
          sx = sum_list x;
          sy = sum_list ys;
          sxx = sum_list (map (\<lambda>a. a * a) x);
          sxy = sum_list (map (\<lambda>(a, b). a * b) (zip x ys));
          d = n * sxx - sx * sx
      in if x = [] \<or> length x \<noteq> length ys then Inl TypeError
         else if d \<noteq> 0 then
           (let slope = (n * sxy - sx * sy) / d in Inr (slope, (sy - slope * sx) / n))
         else if hd x = 0 then Inl LinAlgError
         else Inr (sy / n / (2 * hd x), sy / n / 2))"

definition percent_change_note :: string where
  "percent_change_note =
     ''First value is 0 '' @ [CHR 0xE2, CHR 0x80, CHR 0x94] @ '' percent change undefined.''"

text \<open>One guarded assignment, \<open>if c: results[k] = v\<close>.\<close>

definition store_if ::
  "bool \<Rightarrow> string \<Rightarrow> stat_value \<Rightarrow> (string \<times> stat_value) list \<Rightarrow> (string \<times> stat_value) list" where
  "store_if c k v results = (if c then AList.update k v results else results)"

text \<open>
  \<open>mean\<close>, \<open>median\<close> and \<open>std\<close> work on the column as \<open>float64\<close>. \<open>last - first\<close> and
  \<open>abs(first)\<close> are taken in the type of the column, the quotient is a \<open>float64\<close>.
\<close>

definition calculate_statistics ::
  "yearly list \<Rightarrow> string list \<Rightarrow> error + (string \<times> stat_value) list" where
  "calculate_statistics df_yearly stats =
     (let results = [];
          series = unify (map ValueAgg df_yearly);
          years = map YearInt df_yearly;
          floats = map to_float series
      in
      if series = [] then
        Inr [(''Error'', Str ''No data available after filtering/aggregation.'')]
      else
        let results = store_if (''average'' \<in> set stats) ''Average''
                        (Val (Float64 (mean floats))) results;
            results = store_if (''max'' \<in> set stats) ''Max'' (Val (series_max series)) results;
            results = store_if (''min'' \<in> set stats) ''Min'' (Val (series_min series)) results;
            results = store_if (''median'' \<in> set stats) ''Median''
                        (Val (Float64 (median floats))) results;
            results = store_if (''stddev'' \<in> set stats) ''Std Dev'' (std floats) results;
            results = (if ''percent change'' \<in> set stats then
                         (let first = hd series; last = last series in
                          if to_float first = 0 then
                            AList.update ''Percent Change Note'' (Str percent_change_note)
                              (AList.update ''Percent Change (%)'' PyNone results)
                          else
                            AList.update ''Percent Change (%)''
                              (Val (Float64 ((to_float (num_sub last first)
                                                / to_float (num_abs first)) * 100))) results)
                       else results)
        in
        if ''trend'' \<in> set stats then
          (if length years \<ge> 2 then
             (case polyfit1 years floats of
                Inl e \<Rightarrow> Inl e
              | Inr (slope, intercept) \<Rightarrow>
                  Inr (AList.update ''Trend Intercept'' (Val (Float64 intercept))
                        (AList.update ''Trend Slope (value per year)'' (Val (Float64 slope))
                           results)))
           else
             Inr (AList.update ''Trend'' (Str ''Not enough points to compute trend.'') results))
        else Inr results)"

section \<open>Overlays of the chart\<close>

text \<open>
  \<open>rolling(window, min_periods).mean()\<close> works on the column as \<open>float64\<close> and keeps a
  running sum and a count of the values in the window: at each index the value leaving the
  window is taken out and the new one is added; the mean is NaN (\<open>None\<close>) while the window
  holds fewer than \<open>min_periods\<close> values.
\<close>

function roll_mean :: "nat \<Rightarrow> nat \<Rightarrow> real list \<Rightarrow> nat \<Rightarrow> real \<Rightarrow> nat \<Rightarrow> real option list" where
  "roll_mean window min_periods xs i sum_x nobs =
     (if i < length xs then
        (let sum_x' = (if i \<ge> window then sum_x - xs ! (i - window) else sum_x) + xs ! i;
             nobs' = (if i \<ge> window then nobs - 1 else nobs) + 1
         in (if nobs' \<ge> min_periods then Some (sum_x' / real nobs') else None)
            # roll_mean window min_periods xs (i + 1) sum_x' nobs')
      else [])"
  by pat_completeness auto
termination
  by (relation "measure (\<lambda>(window, min_periods, xs, i, sum_x, nobs). length xs - i)") auto

definition rolling_mean :: "nat \<Rightarrow> nat \<Rightarrow> real list \<Rightarrow> real option list" where
  "rolling_mean window min_periods xs = roll_mean window min_periods xs 0 0 0"

text \<open>
  Of \<open>plot_all_charts\<close> the model keeps the two series it computes for the chart: the fitted
  line and the moving average, each present when it is drawn.
\<close>

record chart =
  trend_vals :: "real list option"
  ma :: "real option list option"

definition plot_all_charts :: "yearly list \<Rightarrow> string list \<Rightarrow> error + chart" where
  "plot_all_charts df_yearly stats =
     (let values = map to_float (map ValueAgg df_yearly);
          trend =
            (if ''trend'' \<in> set stats \<and> length df_yearly \<ge> 2 then
               (let x_num = map YearInt df_yearly in
                case polyfit1 x_num values of
                  Inl e \<Rightarrow> Inl e
                | Inr (slope, intercept) \<Rightarrow>
                    Inr (Some (map (\<lambda>x. slope * real_of_int x + intercept) x_num)))
             else Inr None)
      in
      case trend of
        Inl e \<Rightarrow> Inl e
      | Inr fitted \<Rightarrow>
          Inr \<lparr>trend_vals = fitted,
               ma = (if ''moving average'' \<in> set stats
                     then Some (rolling_mean 3 1 values) else None)\<rparr>)"

section \<open>Reference notions\<close>





text \<open>The names \<open>calculate_statistics\<close> looks for.\<close>

definition recognized :: "string list" where
  "recognized =
     [''average'', ''max'', ''min'', ''median'', ''stddev'', ''percent change'', ''trend'']"

text \<open>
  The entries of a result in the order in which the engine stores them, before those of the
  trend.
\<close>

definition basic_entries :: "num list \<Rightarrow> string list \<Rightarrow> (string \<times> stat_value) list" where
  "basic_entries series stats =
     (if ''average'' \<in> set stats
      then [(''Average'', Val (Float64 (sum_list (map to_float series)
                                       / real (length (map to_float series)))))]
      else [])
     @ (if ''max'' \<in> set stats then [(''Max'', Val (series_max series))] else [])
     @ (if ''min'' \<in> set stats then [(''Min'', Val (series_min series))] else [])
     @ (if ''median'' \<in> set stats then [(''Median'', Val (Float64 (median (map to_float series))))]
        else [])
     @ (if ''stddev'' \<in> set stats then [(''Std Dev'', std (map to_float series))] else [])"

definition percent_change_entries :: "num list \<Rightarrow> string list \<Rightarrow> (string \<times> stat_value) list" where
  "percent_change_entries series stats =
     (if ''percent change'' \<in> set stats then
        (if to_float (hd series) = 0
         then [(''Percent Change (%)'', PyNone), (''Percent Change Note'', Str percent_change_note)]
         else [(''Percent Change (%)'',
                Val (Float64 (to_float (num_sub (last series) (hd series))
                              / to_float (num_abs (hd series)) * 100)))])
      else [])"

section \<open>Sample data\<close>

text \<open>
  The years that \<open>pd.to_datetime\<close> with \<open>format='%Y'\<close> reads from some texts under pandas 3.1,
  and the numbers that \<open>pd.to_numeric\<close> reads from some cells. The other texts used in the
  examples below (\<open>999\<close>, \<open>abc\<close>, \<open>20x2\<close>) are read as no datetime and no number.
\<close>

definition sample_parse_year :: "string \<Rightarrow> int option" where
  "sample_parse_year =
     map_of [(''1999'', 1999), (''2001'', 2001), (''2003'', 2003), (''2004'', 2004),
             (''2007'', 2007), (''0999'', 999), (''-201'', - 201)]"

definition sample_read_number :: "string \<Rightarrow> num option" where
  "sample_read_number = map_of [(''7'', Int64 7), (''12'', Int64 12), (''1.5'', Float64 (3 / 2))]"

definition sample_rows :: "row list" where
  "sample_rows =
     [\<lparr>Time = ''1999'', Sex = ''Males'', Value = Int64 1, Year = 1999\<rparr>,
      \<lparr>Time = ''2003'', Sex = ''Females'', Value = Int64 2, Year = 2003\<rparr>,
      \<lparr>Time = ''2003'', Sex = ''Males and females'', Value = Int64 4, Year = 2003\<rparr>,
      \<lparr>Time = ''2007'', Sex = ''MALES'', Value = Int64 8, Year = 2007\<rparr>,
      \<lparr>Time = ''1999'', Sex = ''Males'', Value = Int64 16, Year = 1999\<rparr>]"

definition sample_csv :: "string csv_row list" where
  "sample_csv =
     [\<lparr>Time = ''2001'', Sex = ''Males'', Value = ''7''\<rparr>,
      \<lparr>Time = ''abc'', Sex = ''Males'', Value = ''7''\<rparr>,
      \<lparr>Time = ''2003'', Sex = ''Males'', Value = ''abc''\<rparr>,
      \<lparr>Time = ''20x2'', Sex = ''Females'', Value = ''7''\<rparr>,
      \<lparr>Time = ''2004'', Sex = ''Females'', Value = ''12''\<rparr>]"

definition point :: "int \<Rightarrow> real \<Rightarrow> yearly" where
  "point y v = \<lparr>Year_dt = y, YearInt = y, ValueAgg = Float64 v\<rparr>"


section \<open>Strings: evaluation\<close>

lemma startswith_simps:
  "startswith s [] \<longleftrightarrow> True"
  "startswith [] (p # ps) \<longleftrightarrow> False"
  "startswith (c # cs) (p # ps) \<longleftrightarrow> c = p \<and> startswith cs ps"
  by (auto simp add: startswith_def)

lemma startswith_take: "startswith e p \<Longrightarrow> n \<le> length p \<Longrightarrow> startswith e (take n p)"
  unfolding startswith_def by (metis length_take min.absorb2 take_take min.commute)

lemma startswith_males: "startswith e ''males'' \<Longrightarrow> startswith e ''male''"
  using startswith_take [of e "''males''" 4] by simp

lemma startswith_female: "startswith e ''female'' \<Longrightarrow> startswith e ''fem''"
  using startswith_take [of e "''female''" 3] by simp

lemma lower_literals:
  "lower ''male'' = ''male''" "lower ''males'' = ''males''" "lower ''female'' = ''female''"
  by (simp_all add: lower_def lower_char_def)

lemma strip_literals:
  "strip ''male'' = ''male''" "strip ''males'' = ''males''" "strip ''female'' = ''female''"
  by (simp_all add: strip_def isspace_def)

section \<open>The category filter\<close>

lemma filter_gender_male:
  "filter_gender df ''male'' = filter (\<lambda>r. lower (Sex r) = ''males'') df"
  by (simp add: filter_gender_def startswith_simps lower_literals strip_literals)

lemma filter_gender_males:
  "filter_gender df ''males'' = filter (\<lambda>r. str_contains (lower (Sex r)) ''males'') df"
  by (simp add: filter_gender_def startswith_simps lower_literals strip_literals)

lemma filter_gender_female:
  "filter_gender df ''female'' = filter (\<lambda>r. lower (Sex r) = ''females'') df"
  by (simp add: filter_gender_def startswith_simps lower_literals strip_literals)

text \<open>
  Claim C5. When the frame has a row whose lower-cased category contains \<open>males\<close> without
  being \<open>males\<close> (a combined category such as \<open>Males and females\<close>), the rows selected by
  the expression \<open>male\<close> are a strict subset of the rows selected by \<open>males\<close>; they are the
  rows of the latter whose category is exactly \<open>males\<close>.
\<close>

theorem filter_gender_male_strict_subset:
  assumes "r \<in> set df"
    and "str_contains (lower (Sex r)) ''males''"
    and "lower (Sex r) \<noteq> ''males''"
  shows "set (filter_gender df ''male'') \<subset> set (filter_gender df ''males'')
    \<and> filter_gender df ''male'' =
        filter (\<lambda>r. lower (Sex r) = ''males'') (filter_gender df ''males'')"
proof -
  have "r \<in> set (filter_gender df ''males'')" "r \<notin> set (filter_gender df ''male'')"
    using assms by (simp_all add: filter_gender_male filter_gender_males)
  moreover have "set (filter_gender df ''male'') \<subseteq> set (filter_gender df ''males'')"
    by (auto simp add: filter_gender_male filter_gender_males startswith_simps)
  moreover have "filter_gender df ''male'' =
      filter (\<lambda>r. lower (Sex r) = ''males'') (filter_gender df ''males'')"
    unfolding filter_gender_male filter_gender_males filter_filter
    by (rule filter_cong) (auto simp add: startswith_simps)
  ultimately show ?thesis by blast
qed

theorem filter_gender_male_strict_subset_witness:
  "\<lparr>Time = ''2003'', Sex = ''Males and females'', Value = Int64 4, Year = 2003\<rparr> \<in> set sample_rows
   \<and> str_contains (lower ''Males and females'') ''males''
   \<and> lower ''Males and females'' \<noteq> ''males''
   \<and> set (filter_gender sample_rows ''male'') \<subset> set (filter_gender sample_rows ''males'')
   \<and> filter_gender sample_rows ''male'' =
       [\<lparr>Time = ''1999'', Sex = ''Males'', Value = Int64 1, Year = 1999\<rparr>,
        \<lparr>Time = ''2007'', Sex = ''MALES'', Value = Int64 8, Year = 2007\<rparr>,
        \<lparr>Time = ''1999'', Sex = ''Males'', Value = Int64 16, Year = 1999\<rparr>]
   \<and> filter_gender sample_rows ''males'' = sample_rows"
proof -
  let ?r = "\<lparr>Time = ''2003'', Sex = ''Males and females'', Value = Int64 4, Year = 2003\<rparr>"
  have h1: "?r \<in> set sample_rows"
    by (simp add: sample_rows_def)
  have h2: "str_contains (lower ''Males and females'') ''males''"
    by (simp add: lower_def lower_char_def startswith_simps)
  have h3: "lower ''Males and females'' \<noteq> ''males''"
    by (simp add: lower_def lower_char_def)
  have c: "set (filter_gender sample_rows ''male'') \<subset> set (filter_gender sample_rows ''males'')"
  proof -
    have "str_contains (lower (Sex ?r)) ''males''" and "lower (Sex ?r) \<noteq> ''males''"
      using h2 h3 by simp_all
    from filter_gender_male_strict_subset [OF h1 this] show ?thesis
      by (rule conjunct1)
  qed
  have e1: "filter_gender sample_rows ''male'' =
       [\<lparr>Time = ''1999'', Sex = ''Males'', Value = Int64 1, Year = 1999\<rparr>,
        \<lparr>Time = ''2007'', Sex = ''MALES'', Value = Int64 8, Year = 2007\<rparr>,
        \<lparr>Time = ''1999'', Sex = ''Males'', Value = Int64 16, Year = 1999\<rparr>]"
    by (simp add: filter_gender_male sample_rows_def lower_def lower_char_def)
  have e2: "filter_gender sample_rows ''males'' = sample_rows"
    by (simp add: filter_gender_males sample_rows_def lower_def lower_char_def startswith_simps)
  from c h1 h2 h3 e1 e2 show ?thesis
    by blast
qed

text \<open>
  Claim C10. Every rule of the category filter compares the lower-cased category of the
  row: the filter is the identity for the expressions \<open>all\<close> and the empty one, and
  otherwise selects by a test on \<open>lower (Sex r)\<close> alone, against the literals \<open>males\<close> and
  \<open>females\<close> in the rules of exact equality. The expression is trimmed and lower-cased
  first. A row of category \<open>MALES\<close> is selected by the expression \<open>male\<close>.
\<close>

theorem filter_gender_lower_cases_category:
  "filter_gender df g =
     (let e = lower (strip g) in
      if e = ''all'' \<or> e = [] then df
      else filter (\<lambda>r. let c = lower (Sex r) in
                        if e = ''male'' \<or> e = ''m'' then c = ''males''
                        else if startswith e ''male'' then str_contains c ''males''
                        else if startswith e ''fem'' then c = ''females''
                        else c = e) df)
   \<and> filter_gender [\<lparr>Time = ''2007'', Sex = ''MALES'', Value = Int64 8, Year = 2007\<rparr>] ''male'' =
       [\<lparr>Time = ''2007'', Sex = ''MALES'', Value = Int64 8, Year = 2007\<rparr>]
   \<and> filter_gender [\<lparr>Time = ''2007'', Sex = ''FeMales'', Value = Int64 8, Year = 2007\<rparr>] '' FEMALE '' =
       [\<lparr>Time = ''2007'', Sex = ''FeMales'', Value = Int64 8, Year = 2007\<rparr>]"
proof -
  have "filter_gender df g =
     (let e = lower (strip g) in
      if e = ''all'' \<or> e = [] then df
      else filter (\<lambda>r. let c = lower (Sex r) in
                        if e = ''male'' \<or> e = ''m'' then c = ''males''
                        else if startswith e ''male'' then str_contains c ''males''
                        else if startswith e ''fem'' then c = ''females''
                        else c = e) df)"
    using startswith_males [of "lower (strip g)"] startswith_female [of "lower (strip g)"]
    by (auto simp add: filter_gender_def Let_def startswith_simps)
  moreover have
    "filter_gender [\<lparr>Time = ''2007'', Sex = ''MALES'', Value = Int64 8, Year = 2007\<rparr>] ''male'' =
       [\<lparr>Time = ''2007'', Sex = ''MALES'', Value = Int64 8, Year = 2007\<rparr>]"
    by (simp add: filter_gender_male lower_def lower_char_def)
  moreover have
    "filter_gender [\<lparr>Time = ''2007'', Sex = ''FeMales'', Value = Int64 8, Year = 2007\<rparr>] '' FEMALE '' =
       [\<lparr>Time = ''2007'', Sex = ''FeMales'', Value = Int64 8, Year = 2007\<rparr>]"
    by (simp add: filter_gender_def strip_def isspace_def lower_def lower_char_def
        startswith_simps)
  ultimately show ?thesis by blast
qed

section \<open>The year-range filter\<close>

text \<open>
  Claim C6. The year-range filter returns exactly the rows whose year lies between the two
  bounds, both included, in their order; when the start year is greater than the end year
  the result is empty.
\<close>

theorem filter_year_range_inclusive:
  "filter_year_range df start_year end_year =
     filter (\<lambda>r. start_year \<le> Year r \<and> Year r \<le> end_year) df
   \<and> set (filter_year_range df start_year end_year) =
       {r \<in> set df. start_year \<le> Year r \<and> Year r \<le> end_year}
   \<and> (start_year > end_year \<longrightarrow> filter_year_range df start_year end_year = [])"
  by (auto simp add: filter_year_range_def filter_empty_conv)

theorem filter_year_range_inclusive_witness:
  "filter_year_range sample_rows 1999 2003 =
     [\<lparr>Time = ''1999'', Sex = ''Males'', Value = Int64 1, Year = 1999\<rparr>,
      \<lparr>Time = ''2003'', Sex = ''Females'', Value = Int64 2, Year = 2003\<rparr>,
      \<lparr>Time = ''2003'', Sex = ''Males and females'', Value = Int64 4, Year = 2003\<rparr>,
      \<lparr>Time = ''1999'', Sex = ''Males'', Value = Int64 16, Year = 1999\<rparr>]
   \<and> (2003 :: int) > 1999
   \<and> filter_year_range sample_rows 2003 1999 = []"
  using filter_year_range_inclusive [of sample_rows 1999 2003]
    filter_year_range_inclusive [of sample_rows 2003 1999]
  by (simp add: sample_rows_def)

section \<open>Numbers: the arithmetic of a column\<close>

lemma map_to_float_unify: "map to_float (unify xs) = map to_float xs"
  by (simp add: unify_def comp_def)



lemma unify_Nil_iff: "unify xs = [] \<longleftrightarrow> xs = []"
  by (simp add: unify_def)









section \<open>The loader\<close>





lemma load_dataset_sample:
  "load_dataset sample_parse_year sample_read_number sample_csv =
     [\<lparr>Time = ''2001'', Sex = ''Males'', Value = Float64 7, Year = 2001\<rparr>,
      \<lparr>Time = ''2004'', Sex = ''Females'', Value = Float64 12, Year = 2004\<rparr>]"
  by (simp add: load_dataset_def to_numeric_def List.map_filter_simps sample_csv_def
      sample_parse_year_def sample_read_number_def)


section \<open>The yearly aggregator\<close>













section \<open>The least-squares fit\<close>

lemma sq_dev_expand:
  fixes xs :: "real list"
  shows "sum_list (map (\<lambda>x. (k * x - c)\<^sup>2) xs) =
     k * k * sum_list (map (\<lambda>x. x * x) xs) - 2 * k * c * sum_list xs + real (length xs) * (c * c)"
  by (induction xs) (simp_all add: power2_eq_square algebra_simps)

lemma det_zero_all_equal:
  fixes xs :: "real list"
  assumes "real (length xs) * sum_list (map (\<lambda>x. x * x) xs) - sum_list xs * sum_list xs = 0"
    and "p \<in> set xs"
  shows "real (length xs) * p = sum_list xs"
proof -
  let ?n = "real (length xs)"
  have "sum_list (map (\<lambda>x. (?n * x - sum_list xs)\<^sup>2) xs) =
      ?n * (?n * sum_list (map (\<lambda>x. x * x) xs) - sum_list xs * sum_list xs)"
    by (subst sq_dev_expand) (simp add: algebra_simps)
  then have z: "sum_list (map (\<lambda>x. (?n * x - sum_list xs)\<^sup>2) xs) = 0"
    using assms(1) by simp
  have "\<forall>v \<in> set (map (\<lambda>x. (?n * x - sum_list xs)\<^sup>2) xs). v = 0"
    using z by (subst (asm) sum_list_nonneg_eq_0_iff) auto
  then have "(?n * p - sum_list xs)\<^sup>2 = 0"
    using assms(2) by auto
  then show ?thesis by simp
qed

lemma det_nonzero:
  fixes xs :: "real list"
  assumes "p \<in> set xs" and "q \<in> set xs" and "p \<noteq> q"
  shows "real (length xs) * sum_list (map (\<lambda>x. x * x) xs) - sum_list xs * sum_list xs \<noteq> 0"
proof
  assume z: "real (length xs) * sum_list (map (\<lambda>x. x * x) xs) - sum_list xs * sum_list xs = 0"
  have n: "0 < real (length xs)"
    using assms(1) by (cases xs) auto
  have "real (length xs) * p = real (length xs) * q"
    using det_zero_all_equal [OF z assms(1)] det_zero_all_equal [OF z assms(2)] by simp
  then show False using assms(3) n by simp
qed

lemma polyfit1_distinct:
  assumes "2 \<le> length xi" and "distinct xi" and "length ys = length xi"
  shows "\<exists>a b. polyfit1 xi ys = Inr (a, b)"
proof -
  obtain p q r where xi: "xi = p # q # r"
    using assms(1) by (cases xi; cases "tl xi") auto
  have "real_of_int p \<in> set (map real_of_int xi)" "real_of_int q \<in> set (map real_of_int xi)"
    "real_of_int p \<noteq> real_of_int q"
    using assms(2) xi by auto
  then have "real (length (map real_of_int xi)) * sum_list (map (\<lambda>x. x * x) (map real_of_int xi))
      - sum_list (map real_of_int xi) * sum_list (map real_of_int xi) \<noteq> 0"
    by (rule det_nonzero)
  then show ?thesis
    using assms(3) xi by (simp add: polyfit1_def Let_def)
qed

section \<open>The statistics engine\<close>



text \<open>
  Claim C2. On an empty series the engine returns the dictionary with the single key
  \<open>Error\<close>, bound to a non-empty string, whatever statistics are requested.
\<close>

theorem calculate_statistics_empty_series:
  "calculate_statistics [] stats =
     Inr [(''Error'', Str ''No data available after filtering/aggregation.'')]
   \<and> ''No data available after filtering/aggregation.'' \<noteq> []"
  by (simp add: calculate_statistics_def unify_def)




lemma update_fresh: "k \<notin> fst ` set al \<Longrightarrow> AList.update k v al = al @ [(k, v)]"
  by (induction al) auto

lemma store_if_fresh:
  "k \<notin> fst ` set al \<Longrightarrow> store_if c k v al = al @ (if c then [(k, v)] else [])"
  by (simp add: store_if_def update_fresh)

lemma key_in_optional:
  "k \<in> fst ` set (if c then [(k', v)] else []) \<longleftrightarrow> c \<and> k = k'"
  by (cases c) auto

lemma series_max_props:
  assumes "xs \<noteq> []"
  shows "series_max xs \<in> set xs \<and> (\<forall>x \<in> set xs. to_float x \<le> to_float (series_max xs))"
proof -
  have "fold (\<lambda>x m. num_max m x) ys m \<in> insert m (set ys)
      \<and> to_float m \<le> to_float (fold (\<lambda>x m. num_max m x) ys m)
      \<and> (\<forall>x \<in> set ys. to_float x \<le> to_float (fold (\<lambda>x m. num_max m x) ys m))" for ys m
  proof (induction ys arbitrary: m)
    case Nil
    show ?case by simp
  next
    case (Cons y ys)
    from Cons [of "num_max m y"] show ?case
      by (auto simp add: num_max_def split: if_splits)
  qed
  from this [of "tl xs" "hd xs"] assms show ?thesis
    by (cases xs) (auto simp add: series_max_def)
qed

lemma series_min_props:
  assumes "xs \<noteq> []"
  shows "series_min xs \<in> set xs \<and> (\<forall>x \<in> set xs. to_float (series_min xs) \<le> to_float x)"
proof -
  have "fold (\<lambda>x m. num_min m x) ys m \<in> insert m (set ys)
      \<and> to_float (fold (\<lambda>x m. num_min m x) ys m) \<le> to_float m
      \<and> (\<forall>x \<in> set ys. to_float (fold (\<lambda>x m. num_min m x) ys m) \<le> to_float x)" for ys m
  proof (induction ys arbitrary: m)
    case Nil
    show ?case by simp
  next
    case (Cons y ys)
    from Cons [of "num_min m y"] show ?case
      by (auto simp add: num_min_def split: if_splits)
  qed
  from this [of "tl xs" "hd xs"] assms show ?thesis
    by (cases xs) (auto simp add: series_min_def)
qed

lemma engine_entries:
  assumes "s \<noteq> []"
  shows "calculate_statistics s stats =
    (let series = unify (map ValueAgg s);
         entries = basic_entries series stats @ percent_change_entries series stats
     in if ''trend'' \<in> set stats then
          (if 2 \<le> length s then
             (case polyfit1 (map YearInt s) (map to_float (unify (map ValueAgg s))) of
                Inl e \<Rightarrow> Inl e
              | Inr (slope, intercept) \<Rightarrow>
                  Inr (entries @ [(''Trend Slope (value per year)'', Val (Float64 slope)),
                                  (''Trend Intercept'', Val (Float64 intercept))]))
           else Inr (entries @ [(''Trend'', Str ''Not enough points to compute trend.'')]))
        else Inr entries)"
proof -
  let ?series = "unify (map ValueAgg s)"
  have ne: "?series \<noteq> []"
    using assms by (simp add: unify_Nil_iff)
  have fl: "map to_float ?series = map to_float (map ValueAgg s)"
    by (rule map_to_float_unify)
  have len: "length ?series = length s"
    by (simp add: unify_def)
  have keys: "fst ` set (basic_entries ?series stats)
      \<subseteq> {''Average'', ''Max'', ''Min'', ''Median'', ''Std Dev''}"
    by (auto simp add: basic_entries_def split: if_splits)
  have pkeys: "fst ` set (percent_change_entries ?series stats)
      \<subseteq> {''Percent Change (%)'', ''Percent Change Note''}"
    by (auto simp add: percent_change_entries_def split: if_splits)
  let ?r5 = "store_if (''stddev'' \<in> set stats) ''Std Dev'' (std (map to_float ?series))
       (store_if (''median'' \<in> set stats) ''Median'' (Val (Float64 (median (map to_float ?series))))
         (store_if (''min'' \<in> set stats) ''Min'' (Val (series_min ?series))
           (store_if (''max'' \<in> set stats) ''Max'' (Val (series_max ?series))
             (store_if (''average'' \<in> set stats) ''Average''
                (Val (Float64 (mean (map to_float ?series)))) []))))"
  have r5: "?r5 = basic_entries ?series stats"
    by (simp add: basic_entries_def store_if_fresh key_in_optional mean_def image_Un
        del: length_map)
  let ?r6 = "(if ''percent change'' \<in> set stats then
               (let first = hd ?series; last = last ?series in
                if to_float first = 0 then
                  AList.update ''Percent Change Note'' (Str percent_change_note)
                    (AList.update ''Percent Change (%)'' PyNone ?r5)
                else
                  AList.update ''Percent Change (%)''
                    (Val (Float64 ((to_float (num_sub last first) / to_float (num_abs first)) * 100)))
                    ?r5)
             else ?r5)"
  have f1: "''Percent Change (%)'' \<notin> fst ` set (basic_entries ?series stats)"
    "''Percent Change Note'' \<notin> fst ` set (basic_entries ?series stats)"
    using keys by auto
  have r6: "?r6 = basic_entries ?series stats @ percent_change_entries ?series stats"
    unfolding r5
    by (simp add: percent_change_entries_def Let_def update_fresh f1 image_Un)
  have f2: "''Trend'' \<notin> fst ` set (basic_entries ?series stats @ percent_change_entries ?series stats)"
    "''Trend Slope (value per year)''
       \<notin> fst ` set (basic_entries ?series stats @ percent_change_entries ?series stats)"
    "''Trend Intercept''
       \<notin> fst ` set (basic_entries ?series stats @ percent_change_entries ?series stats)"
    using keys pkeys by (auto simp add: image_Un)
  have "calculate_statistics s stats =
      (if ''trend'' \<in> set stats then
          (if 2 \<le> length s then
             (case polyfit1 (map YearInt s) (map to_float (unify (map ValueAgg s))) of
                Inl e \<Rightarrow> Inl e
              | Inr (slope, intercept) \<Rightarrow>
                  Inr (AList.update ''Trend Intercept'' (Val (Float64 intercept))
                        (AList.update ''Trend Slope (value per year)'' (Val (Float64 slope)) ?r6)))
           else Inr (AList.update ''Trend'' (Str ''Not enough points to compute trend.'') ?r6))
        else Inr ?r6)"
    using ne unfolding calculate_statistics_def Let_def by simp
  also have "\<dots> = (if ''trend'' \<in> set stats then
          (if 2 \<le> length s then
             (case polyfit1 (map YearInt s) (map to_float (unify (map ValueAgg s))) of
                Inl e \<Rightarrow> Inl e
              | Inr (slope, intercept) \<Rightarrow>
                  Inr ((basic_entries ?series stats @ percent_change_entries ?series stats)
                       @ [(''Trend Slope (value per year)'', Val (Float64 slope)),
                          (''Trend Intercept'', Val (Float64 intercept))]))
           else Inr ((basic_entries ?series stats @ percent_change_entries ?series stats)
                     @ [(''Trend'', Str ''Not enough points to compute trend.'')]))
        else Inr (basic_entries ?series stats @ percent_change_entries ?series stats))"
    unfolding r6 using f2
    by (auto simp add: update_fresh split: sum.splits prod.splits)
  finally show ?thesis
    by (simp add: Let_def)
qed

lemma recognized_filter:
  "n \<in> set recognized \<Longrightarrow>
   n \<in> set (filter (\<lambda>n. n \<in> set recognized) stats) \<longleftrightarrow> n \<in> set stats"
  by simp

lemma unrecognized_ignored:
  "calculate_statistics s stats =
     calculate_statistics s (filter (\<lambda>n. n \<in> set recognized) stats)"
proof -
  have r: "''average'' \<in> set recognized" "''max'' \<in> set recognized"
    "''min'' \<in> set recognized" "''median'' \<in> set recognized" "''stddev'' \<in> set recognized"
    "''percent change'' \<in> set recognized" "''trend'' \<in> set recognized"
    by (simp_all add: recognized_def)
  show ?thesis
    unfolding calculate_statistics_def
    by (simp only: r [THEN recognized_filter])
qed

lemma only_unrecognized:
  assumes "s \<noteq> []" and "set stats \<inter> set recognized = {}"
  shows "calculate_statistics s stats = Inr []"
proof -
  have "\<And>n. n \<in> set recognized \<Longrightarrow> n \<notin> set stats"
    using assms(2) by blast
  then have r: "''average'' \<notin> set stats" "''max'' \<notin> set stats" "''min'' \<notin> set stats"
    "''median'' \<notin> set stats" "''stddev'' \<notin> set stats"
    "''percent change'' \<notin> set stats" "''trend'' \<notin> set stats"
    by (simp_all add: recognized_def)
  show ?thesis using assms(1)
    by (simp add: calculate_statistics_def r store_if_def unify_Nil_iff)
qed

text \<open>
  Claim C9. On a non-empty series the names that are not among the seven the engine looks
  for change nothing: the outcome is the one for the list without them, so they add no
  entry and no failure, and a list of such names only gives the empty dictionary. Each of
  the seven names that is in the list has its entry, and the result holds these entries and
  no other, in the order of the engine: the mean under \<open>Average\<close>, the greatest and the least
  total under \<open>Max\<close> and \<open>Min\<close>, the median under \<open>Median\<close>, the sample standard deviation
  under \<open>Std Dev\<close>, the percent change (or \<open>None\<close> and its note), and slope and intercept of
  the fit (or the text for fewer than two points). The run fails only when \<open>np.polyfit\<close> does.
\<close>

theorem unrecognized_names_ignored:
  assumes "s \<noteq> []"
  shows "calculate_statistics s stats =
           calculate_statistics s (filter (\<lambda>n. n \<in> set recognized) stats)
    \<and> (set stats \<inter> set recognized = {} \<longrightarrow> calculate_statistics s stats = Inr [])
    \<and> (let series = unify (map ValueAgg s);
            floats = map to_float series;
            entries =
              ((if ''average'' \<in> set stats
                then [(''Average'', Val (Float64 (sum_list floats / real (length floats))))]
                else [])
              @ (if ''max'' \<in> set stats then [(''Max'', Val (series_max series))] else [])
              @ (if ''min'' \<in> set stats then [(''Min'', Val (series_min series))] else [])
              @ (if ''median'' \<in> set stats then [(''Median'', Val (Float64 (median floats)))]
                 else [])
              @ (if ''stddev'' \<in> set stats then [(''Std Dev'', std floats)] else []))
              @ (if ''percent change'' \<in> set stats then
                   (if to_float (hd series) = 0
                    then [(''Percent Change (%)'', PyNone),
                          (''Percent Change Note'', Str percent_change_note)]
                    else [(''Percent Change (%)'',
                           Val (Float64 (to_float (num_sub (last series) (hd series))
                                         / to_float (num_abs (hd series)) * 100)))])
                 else [])
        in calculate_statistics s stats =
             (if ''trend'' \<in> set stats then
                (if 2 \<le> length s then
                   (case polyfit1 (map YearInt s) floats of
                      Inl e \<Rightarrow> Inl e
                    | Inr (slope, intercept) \<Rightarrow>
                        Inr (entries @ [(''Trend Slope (value per year)'', Val (Float64 slope)),
                                        (''Trend Intercept'', Val (Float64 intercept))]))
                 else Inr (entries @ [(''Trend'', Str ''Not enough points to compute trend.'')]))
              else Inr entries)
           \<and> series_max series \<in> set series
           \<and> (\<forall>x \<in> set series. to_float x \<le> to_float (series_max series))
           \<and> series_min series \<in> set series
           \<and> (\<forall>x \<in> set series. to_float (series_min series) \<le> to_float x))"
    (is "?same \<and> ?none \<and> ?entries")
proof -
  have ne: "unify (map ValueAgg s) \<noteq> []"
    using assms by (simp add: unify_Nil_iff)
  have ?same
    by (rule unrecognized_ignored)
  moreover have ?none
    using only_unrecognized [OF assms] by blast
  moreover have ?entries
    unfolding Let_def
    apply (intro conjI)
        apply (rule engine_entries
          [OF assms, unfolded basic_entries_def percent_change_entries_def Let_def])
    using series_max_props [OF ne] series_min_props [OF ne] apply blast+
    done
  ultimately show ?thesis
    by blast
qed

theorem unrecognized_names_ignored_witness:
  "[point 2000 5, point 2001 7, point 2002 9] \<noteq> []
   \<and> calculate_statistics [point 2000 5, point 2001 7, point 2002 9]
       [''Max'', ''max'', ''moving average'', ''average'', ''mean'', ''median'', ''min''] =
       Inr [(''Average'', Val (Float64 7)), (''Max'', Val (Float64 9)),
            (''Min'', Val (Float64 5)), (''Median'', Val (Float64 7))]
   \<and> set [''moving average'', ''mode''] \<inter> set recognized = {}
   \<and> calculate_statistics [point 2000 5, point 2001 7, point 2002 9]
       [''moving average'', ''mode''] = Inr []
   \<and> calculate_statistics [point 2000 5] [''Trend'', ''trend''] =
       Inr [(''Trend'', Str ''Not enough points to compute trend.'')]"
  using unrecognized_names_ignored [of "[point 2000 5, point 2001 7, point 2002 9]"
      "[''Max'', ''max'', ''moving average'', ''average'', ''mean'', ''median'', ''min'']"]
    unrecognized_names_ignored [of "[point 2000 5, point 2001 7, point 2002 9]"
      "[''moving average'', ''mode'']"]
  by (simp add: recognized_def calculate_statistics_def store_if_def point_def series_max_def
      series_min_def num_max_def num_min_def mean_def median_def unify_def)

section \<open>The moving average\<close>

lemma window_step_short:
  fixes xs :: "real list"
  assumes "i < length xs" "i < w"
  shows "sum_list (take (min w i) (drop (i - w) xs)) + xs ! i =
         sum_list (take (min w (i + 1)) (drop (i + 1 - w) xs))"
  using assms by (cases "w = Suc i") (simp_all add: min_def take_Suc_conv_app_nth)

lemma window_step_full:
  fixes xs :: "real list"
  assumes "i < length xs" "w \<le> i" "0 < w"
  shows "sum_list (take (min w i) (drop (i - w) xs)) - xs ! (i - w) + xs ! i =
         sum_list (take (min w (i + 1)) (drop (i + 1 - w) xs))"
proof -
  let ?rest = "drop (Suc (i - w)) xs"
  obtain v where w: "w = Suc v" using assms(3) by (cases w) auto
  have d: "drop (i - w) xs = xs ! (i - w) # ?rest"
    using assms by (simp add: Cons_nth_drop_Suc)
  have l: "v < length ?rest" using assms w by simp
  have n: "?rest ! v = xs ! i" using assms w by simp
  have t: "take w ?rest = take v ?rest @ [xs ! i]"
    using l n by (simp add: w take_Suc_conv_app_nth)
  have e: "Suc i - w = Suc (i - w)" "min w i = w" "min w (Suc i) = w"
    using assms by simp_all
  have "sum_list (take w (drop (i - w) xs)) = xs ! (i - w) + sum_list (take v ?rest)"
    by (subst d) (simp add: w)
  moreover have "sum_list (take w ?rest) = sum_list (take v ?rest) + xs ! i"
    by (simp add: t)
  ultimately show ?thesis by (simp add: e)
qed

lemma roll_mean_windows:
  assumes "0 < w" "i \<le> length xs"
    and "sum_x = sum_list (take (min w i) (drop (i - w) xs))" and "nobs = min w i"
  shows "roll_mean w mp xs i sum_x nobs =
     map (\<lambda>j. if mp \<le> min w (j + 1)
               then Some (sum_list (take (min w (j + 1)) (drop (j + 1 - w) xs)) / real (min w (j + 1)))
               else None) [i..<length xs]"
  using assms
proof (induction w mp xs i sum_x nobs rule: roll_mean.induct)
  case (1 w mp xs i sum_x nobs)
  show ?case
  proof (cases "i < length xs")
    case False
    then show ?thesis by simp
  next
    case True
    let ?s = "(if w \<le> i then sum_x - xs ! (i - w) else sum_x) + xs ! i"
    let ?n = "(if w \<le> i then nobs - 1 else nobs) + 1"
    have s: "?s = sum_list (take (min w (i + 1)) (drop (i + 1 - w) xs))"
      using window_step_short [of i xs w] window_step_full [of i xs w] True "1.prems"
      by (cases "w \<le> i") simp_all
    have n: "?n = min w (i + 1)"
      using "1.prems" by (auto simp add: min_def)
    have ih: "roll_mean w mp xs (i + 1) ?s ?n =
       map (\<lambda>j. if mp \<le> min w (j + 1)
               then Some (sum_list (take (min w (j + 1)) (drop (j + 1 - w) xs)) / real (min w (j + 1)))
               else None) [i + 1..<length xs]"
      using "1.IH" [OF True refl refl "1.prems"(1) _ s n] True by simp
    have u: "[i..<length xs] = i # [i + 1..<length xs]"
      using True by (simp add: upt_conv_Cons)
    show ?thesis
      apply (subst roll_mean.simps)
      apply (simp only: True if_True Let_def ih u list.map)
      apply (simp only: s n)
      done
  qed
qed

lemma rolling_mean_3:
  "rolling_mean 3 1 xs =
     map (\<lambda>i. Some (mean (take (min 3 (i + 1)) (drop (i - 2) xs)))) [0..<length xs]"
proof -
  have "rolling_mean 3 1 xs = map (\<lambda>j. if 1 \<le> min 3 (j + 1)
               then Some (sum_list (take (min 3 (j + 1)) (drop (j + 1 - 3) xs)) / real (min 3 (j + 1)))
               else None) [0..<length xs]"
    unfolding rolling_mean_def by (rule roll_mean_windows) simp_all
  also have "\<dots> = map (\<lambda>i. Some (mean (take (min 3 (i + 1)) (drop (i - 2) xs)))) [0..<length xs]"
    by (rule map_cong) (auto simp add: mean_def min_def)
  finally show ?thesis .
qed

lemma plot_all_charts_returns:
  assumes "distinct (map YearInt s)"
  shows "\<exists>c. plot_all_charts s stats = Inr c"
proof (cases "2 \<le> length s")
  case True
  have "\<exists>a b. polyfit1 (map YearInt s) (map to_float (map ValueAgg s)) = Inr (a, b)"
    using True assms by (intro polyfit1_distinct) simp_all
  then obtain a b
    where "polyfit1 (map YearInt s) (map to_float (map ValueAgg s)) = Inr (a, b)" by blast
  then show ?thesis
    by (simp add: plot_all_charts_def Let_def)
next
  case False
  then show ?thesis
    by (simp add: plot_all_charts_def Let_def)
qed

text \<open>
  Claim C7. When \<open>plot_all_charts\<close> gets through the fit of the trend line (it can only stop
  there, in \<open>np.polyfit\<close>, and does not stop on a series whose years are pairwise distinct),
  the moving average it draws, when requested, has at each index \<open>i\<close> the mean of the totals
  from index \<open>max(0, i - 2)\<close> to \<open>i\<close>, that is of \<open>min(3, i + 1)\<close> values; it draws none when
  not requested. On the totals 10, 20, 30, 40 the moving average is 10, 15, 20, 30.
\<close>

theorem moving_average_overlay:
  "(case plot_all_charts s stats of
      Inl e \<Rightarrow> ''trend'' \<in> set stats
               \<and> polyfit1 (map YearInt s) (map to_float (map ValueAgg s)) = Inl e
    | Inr c \<Rightarrow>
        ma c = (if ''moving average'' \<in> set stats
                then Some (map (\<lambda>i. Some (mean (take (min 3 (i + 1))
                                                 (drop (i - 2) (map to_float (map ValueAgg s))))))
                            [0..<length s])
                else None))
   \<and> (distinct (map YearInt s) \<longrightarrow> (\<exists>c. plot_all_charts s stats = Inr c))
   \<and> plot_all_charts [point 2000 10, point 2001 20, point 2002 30, point 2003 40]
        [''moving average''] =
       Inr \<lparr>trend_vals = None, ma = Some [Some 10, Some 15, Some 20, Some 30]\<rparr>"
proof -
  have "plot_all_charts [point 2000 10, point 2001 20, point 2002 30, point 2003 40]
        [''moving average''] =
       Inr \<lparr>trend_vals = None, ma = Some [Some 10, Some 15, Some 20, Some 30]\<rparr>"
    by (simp add: plot_all_charts_def rolling_mean_def point_def)
  moreover have "case plot_all_charts s stats of
      Inl e \<Rightarrow> ''trend'' \<in> set stats
               \<and> polyfit1 (map YearInt s) (map to_float (map ValueAgg s)) = Inl e
    | Inr c \<Rightarrow>
        ma c = (if ''moving average'' \<in> set stats
                then Some (map (\<lambda>i. Some (mean (take (min 3 (i + 1))
                                                 (drop (i - 2) (map to_float (map ValueAgg s))))))
                            [0..<length s])
                else None)"
    using rolling_mean_3 [of "map to_float (map ValueAgg s)"]
    by (simp add: plot_all_charts_def Let_def split: sum.splits prod.splits)
  ultimately show ?thesis
    using plot_all_charts_returns [of s stats] by blast
qed

theorem moving_average_overlay_witness:
  "distinct (map YearInt [point 2000 10, point 2001 20, point 2002 30, point 2003 40])
   \<and> (\<exists>c. plot_all_charts [point 2000 10, point 2001 20, point 2002 30, point 2003 40]
             [''trend'', ''moving average''] = Inr c
          \<and> ma c = Some [Some 10, Some 15, Some 20, Some 30])"
proof -
  let ?s = "[point 2000 10, point 2001 20, point 2002 30, point 2003 40]"
  have d: "distinct (map YearInt ?s)"
    by (simp add: point_def)
  have v: "map (\<lambda>i. Some (mean (take (min 3 (i + 1))
                                (drop (i - 2) (map to_float (map ValueAgg ?s))))))
             [0..<length ?s] = [Some 10, Some 15, Some 20, Some 30]"
    by (simp add: point_def mean_def upt_rec [of 0] upt_rec [of 1] upt_rec [of 2] upt_rec [of 3])
  from moving_average_overlay [where s = ?s and stats = "[''trend'', ''moving average'']"] d
  obtain c where c: "plot_all_charts ?s [''trend'', ''moving average''] = Inr c"
    by blast
  with moving_average_overlay [where s = ?s and stats = "[''trend'', ''moving average'']"]
  have "ma c = Some (map (\<lambda>i. Some (mean (take (min 3 (i + 1))
                                          (drop (i - 2) (map to_float (map ValueAgg ?s))))))
             [0..<length ?s])"
    by simp
  with v have "ma c = Some [Some 10, Some 15, Some 20, Some 30]"
    by simp
  with c d show ?thesis
    by blast
qed

end
